theory Spec2Isabelle
  imports Main "HOL-Library.Word"
begin

section \<open>The ToDo service: status codes, messages and wire timestamps\<close>

text \<open>
  The service of \<^verbatim>\<open>pkg/service/v1\<close> has five handlers (Create, Read, Update, Delete,
  ReadAll). Each one checks the API version, takes a connection from the pool, runs one SQL
  statement or query and maps the outcome onto a gRPC status. The handlers are embedded
  below as functions from the state of the storage collaborator to a result and the new
  state. Every \<^verbatim>\<open>return nil, status.Errorf(...)\<close> of the source is a branch returning
  \<open>Inl (Errorf code format args)\<close>, with the format string of the source and the
  arguments in the source's order; a nil-pointer dereference is the outcome \<open>Panic\<close>.
\<close>

datatype codes = InvalidArgument | NotFound | Unimplemented | Internal

text \<open>The four errors of \<^verbatim>\<open>validateTimestamp\<close> in \<^verbatim>\<open>ptypes\<close>.\<close>

datatype ts_error = NilTimestamp | BeforeMin | AfterMax | NanosOutOfRange

text \<open>
  An error value handed to \<^verbatim>\<open>%+v\<close>: an error of the timestamp conversion, an error
  reported by the SQL driver (with its text), or \<^verbatim>\<open>database/sql\<close>'s
  "destination not a pointer", which \<^verbatim>\<open>Rows.Scan\<close> returns for a destination argument
  that is not a pointer.
\<close>

datatype err = TimestampErr ts_error | DriverErr string | DestinationNotAPointer

datatype arg = S string | D int | E err

datatype failure = Errorf codes string "arg list" | Panic

text \<open>
  The wire timestamp \<^verbatim>\<open>timestamp.Timestamp\<close>: \<^verbatim>\<open>Seconds int64\<close> and \<^verbatim>\<open>Nanos int32\<close>.
  A \<^verbatim>\<open>*timestamp.Timestamp\<close> is a \<open>Timestamp option\<close>, \<open>None\<close> for nil.
\<close>

record Timestamp =
  Seconds :: "64 word"
  Nanos :: "32 word"

text \<open>
  A \<^verbatim>\<open>time.Time\<close>, as the instant it denotes: what \<^verbatim>\<open>t.Unix()\<close> and
  \<^verbatim>\<open>t.Nanosecond()\<close> return. The location is always UTC here.
\<close>

record Time =
  Unix :: "64 word"
  Nanosecond :: "32 word"

definition minValidSeconds :: int where
  "minValidSeconds = - 62135596800"

definition maxValidSeconds :: int where
  "maxValidSeconds = 253402300800"

definition validateTimestamp :: "Timestamp option \<Rightarrow> ts_error option" where
  "validateTimestamp ts =
     (case ts of
        None \<Rightarrow> Some NilTimestamp
      | Some t \<Rightarrow>
          if sint (Seconds t) < minValidSeconds then Some BeforeMin
          else if sint (Seconds t) \<ge> maxValidSeconds then Some AfterMax
          else if sint (Nanos t) < 0 \<or> sint (Nanos t) \<ge> 1000000000 then Some NanosOutOfRange
          else None)"

text \<open>
  \<^verbatim>\<open>ptypes.Timestamp\<close> returns \<^verbatim>\<open>time.Unix(ts.Seconds, int64(ts.Nanos)).UTC()\<close> together
  with the error of \<^verbatim>\<open>validateTimestamp\<close>. Both callers in the service drop the time when
  the error is not nil, so the model returns one or the other. For a valid timestamp the
  nanoseconds lie in \<open>[0, 10^9)\<close> and \<^verbatim>\<open>time.Unix\<close> keeps both numbers as they are.
\<close>

definition ptypes_Timestamp :: "Timestamp option \<Rightarrow> ts_error + Time" where
  "ptypes_Timestamp ts =
     (case validateTimestamp ts of
        Some e \<Rightarrow> Inl e
      | None \<Rightarrow>
          (case ts of
             None \<Rightarrow> Inl NilTimestamp
           | Some t \<Rightarrow> Inr \<lparr>Unix = Seconds t, Nanosecond = Nanos t\<rparr>))"

text \<open>
  \<^verbatim>\<open>ptypes.TimestampProto\<close> builds the timestamp from \<^verbatim>\<open>t.Unix()\<close> and
  \<^verbatim>\<open>int32(t.Nanosecond())\<close> and validates it.
\<close>

definition ptypes_TimestampProto :: "Time \<Rightarrow> ts_error + Timestamp" where
  "ptypes_TimestampProto t =
     (let ts = \<lparr>Seconds = Unix t, Nanos = Nanosecond t\<rparr>
      in case validateTimestamp (Some ts) of Some e \<Rightarrow> Inl e | None \<Rightarrow> Inr ts)"

section \<open>Messages of the remote procedure interface\<close>

text \<open>
  Modelled from the spec: the message types of \<^verbatim>\<open>pkg/api/v1\<close> (generated from the proto
  file) are not under \<^verbatim>\<open>src/\<close>. Section 6 of the specification gives each request an
  \<open>api\<close> field and the fields listed there, and each response an \<open>api\<close> field and its
  result; the to-do item has an identifier, a title, a description and a reminder. The field
  names are the ones the service uses. A message field (\<^verbatim>\<open>*v1.ToDo\<close>,
  \<^verbatim>\<open>*timestamp.Timestamp\<close>) is a pointer and may be nil.
\<close>

record ToDo =
  Id :: int
  Title :: string
  Description :: string
  Reminder :: "Timestamp option"

record CreateRequest =
  Api :: string
  ToDo :: "ToDo option"

record CreateResponse =
  Api :: string
  Id :: int

record ReadRequest =
  Api :: string
  Id :: int

record ReadResponse =
  Api :: string
  ToDo :: "ToDo option"

record UpdateRequest =
  Api :: string
  ToDo :: "ToDo option"

record UpdateResponse =
  Api :: string
  Updated :: int

record DeleteRequest =
  Api :: string
  Id :: int

record DeleteResponse =
  Api :: string
  Deleted :: int

record ReadAllRequest =
  Api :: string

record ReadAllResponse =
  Api :: string
  ToDos :: "ToDo list"

text \<open>
  Modelled from the spec: the accessors \<^verbatim>\<open>GetId\<close>, \<^verbatim>\<open>GetTitle\<close>, \<^verbatim>\<open>GetDescription\<close> and
  \<^verbatim>\<open>GetReminder\<close> of the generated \<^verbatim>\<open>v1.ToDo\<close> are not under \<^verbatim>\<open>src/\<close>. They are the
  nil-safe accessors of generated protobuf code: on a nil message they return the zero value
  of the field.
\<close>

definition GetId :: "ToDo option \<Rightarrow> int" where
  "GetId m = (case m of None \<Rightarrow> 0 | Some x \<Rightarrow> ToDo.Id x)"

definition GetTitle :: "ToDo option \<Rightarrow> string" where
  "GetTitle m = (case m of None \<Rightarrow> [] | Some x \<Rightarrow> ToDo.Title x)"

definition GetDescription :: "ToDo option \<Rightarrow> string" where
  "GetDescription m = (case m of None \<Rightarrow> [] | Some x \<Rightarrow> ToDo.Description x)"

definition GetReminder :: "ToDo option \<Rightarrow> Timestamp option" where
  "GetReminder m = (case m of None \<Rightarrow> None | Some x \<Rightarrow> ToDo.Reminder x)"

section \<open>The storage collaborator\<close>

text \<open>
  The table \<^verbatim>\<open>ToDo(ID, Title, Description, Reminder)\<close> is a list of rows, in the order
  the engine returns them, and the counter from which the engine assigns the next
  identifier. The list may hold several rows with one identifier: Read has a branch for
  that. The engine keeps a bound value exactly as it was given (the specification's
  nanosecond-capable representation); the column types are not part of the source.
\<close>

record row =
  col_ID :: int
  col_Title :: string
  col_Description :: string
  col_Reminder :: Time

record database =
  table :: "row list"
  auto_increment :: int

text \<open>
  What the collaborator may report instead of an answer, chosen by the environment of one
  call: an error of \<^verbatim>\<open>db.Conn\<close>, of \<^verbatim>\<open>ExecContext\<close> or \<^verbatim>\<open>QueryContext\<close>, of
  \<^verbatim>\<open>LastInsertId\<close> or \<^verbatim>\<open>RowsAffected\<close>, of the iteration (\<^verbatim>\<open>rows.Next\<close> returns
  false after \<open>n\<close> rows and \<^verbatim>\<open>rows.Err\<close> is not nil) and of the driver's conversion in
  \<^verbatim>\<open>rows.Scan\<close>. A statement that reports an error has not been applied.
\<close>

record faults =
  conn_err :: "string option"
  stmt_err :: "string option"
  result_err :: "string option"
  next_err :: "(nat \<times> string) option"
  scan_err :: "string option"

definition healthy :: "faults \<Rightarrow> bool" where
  "healthy f \<longleftrightarrow>
     conn_err f = None \<and> stmt_err f = None \<and> result_err f = None \<and>
     next_err f = None \<and> scan_err f = None"

definition no_faults :: faults where
  "no_faults = \<lparr>conn_err = None, stmt_err = None, result_err = None,
                 next_err = None, scan_err = None\<rparr>"

text \<open>The three statements and the two queries of the service, with their bound values.\<close>

datatype stmt =
    INSERT string string Time
  | UPDATE string string Time int
  | DELETE int

datatype query = SELECT_WHERE_ID int | SELECT_ALL

record Result =
  lastInsertId :: int
  rowsAffected :: int

text \<open>
  INSERT appends a row under the identifier the counter holds and advances the counter;
  \<^verbatim>\<open>LastInsertId\<close> is that identifier. UPDATE overwrites the three fields of every row
  the \<^verbatim>\<open>WHERE\<close> clause selects and DELETE removes those rows; \<^verbatim>\<open>RowsAffected\<close> is
  the number of rows selected.
\<close>

fun run_stmt :: "database \<Rightarrow> stmt \<Rightarrow> Result \<times> database" where
  "run_stmt db (INSERT t d r) =
     (\<lparr>lastInsertId = auto_increment db, rowsAffected = 1\<rparr>,
      db\<lparr>table := table db @
            [\<lparr>col_ID = auto_increment db, col_Title = t, col_Description = d,
              col_Reminder = r\<rparr>],
         auto_increment := auto_increment db + 1\<rparr>)"
| "run_stmt db (UPDATE t d r i) =
     (\<lparr>lastInsertId = 0,
       rowsAffected = int (length (filter (\<lambda>x. col_ID x = i) (table db)))\<rparr>,
      db\<lparr>table :=
            map (\<lambda>x. if col_ID x = i
                      then x\<lparr>col_Title := t, col_Description := d, col_Reminder := r\<rparr>
                      else x)
              (table db)\<rparr>)"
| "run_stmt db (DELETE i) =
     (\<lparr>lastInsertId = 0,
       rowsAffected = int (length (filter (\<lambda>x. col_ID x = i) (table db)))\<rparr>,
      db\<lparr>table := filter (\<lambda>x. col_ID x \<noteq> i) (table db)\<rparr>)"

fun run_query :: "database \<Rightarrow> query \<Rightarrow> row list" where
  "run_query db (SELECT_WHERE_ID i) = filter (\<lambda>x. col_ID x = i) (table db)"
| "run_query db SELECT_ALL = table db"

definition ExecContext :: "faults \<Rightarrow> database \<Rightarrow> stmt \<Rightarrow> err + Result \<times> database" where
  "ExecContext f db s =
     (case stmt_err f of Some e \<Rightarrow> Inl (DriverErr e) | None \<Rightarrow> Inr (run_stmt db s))"

definition LastInsertId :: "faults \<Rightarrow> Result \<Rightarrow> err + int" where
  "LastInsertId f res =
     (case result_err f of Some e \<Rightarrow> Inl (DriverErr e) | None \<Rightarrow> Inr (lastInsertId res))"

definition RowsAffected :: "faults \<Rightarrow> Result \<Rightarrow> err + int" where
  "RowsAffected f res =
     (case result_err f of Some e \<Rightarrow> Inl (DriverErr e) | None \<Rightarrow> Inr (rowsAffected res))"

text \<open>
  A result set: the rows that successive calls of \<^verbatim>\<open>rows.Next\<close> deliver, and what
  \<^verbatim>\<open>rows.Err\<close> returns once \<^verbatim>\<open>rows.Next\<close> has returned false.
\<close>

record Rows =
  pending :: "row list"
  Err :: "err option"

definition QueryContext :: "faults \<Rightarrow> database \<Rightarrow> query \<Rightarrow> err + Rows" where
  "QueryContext f db q =
     (case stmt_err f of
        Some e \<Rightarrow> Inl (DriverErr e)
      | None \<Rightarrow>
          (case next_err f of
             None \<Rightarrow> Inr \<lparr>pending = run_query db q, Err = None\<rparr>
           | Some (n, e) \<Rightarrow>
               Inr \<lparr>pending = take n (run_query db q), Err = Some (DriverErr e)\<rparr>))"

definition Next :: "Rows \<Rightarrow> (row \<times> Rows) option" where
  "Next rs = (case pending rs of [] \<Rightarrow> None | r # rest \<Rightarrow> Some (r, rs\<lparr>pending := rest\<rparr>))"

text \<open>
  \<^verbatim>\<open>rows.Scan\<close> takes its destinations as \<^verbatim>\<open>interface{}\<close> values. Each is either the
  address of a variable (\<^verbatim>\<open>&td.Id\<close>) or a plain value (\<^verbatim>\<open>td.Id\<close>); for a destination that
  is not a pointer \<^verbatim>\<open>database/sql\<close> returns an error and assigns nothing. On success the
  columns of the row have been copied to the destinations.
\<close>

datatype dest = Addr | Val

definition Scan :: "faults \<Rightarrow> dest list \<Rightarrow> row \<Rightarrow> err + row" where
  "Scan f dests r =
     (if Val \<in> set dests then Inl DestinationNotAPointer
      else case scan_err f of Some e \<Rightarrow> Inl (DriverErr e) | None \<Rightarrow> Inr r)"

section \<open>The service\<close>

definition apiVersion :: string where
  "apiVersion = ''v1''"

definition checkAPI :: "string \<Rightarrow> failure option" where
  "checkAPI api =
     (if length api > 0 then
        (if apiVersion \<noteq> api then
           Some (Errorf Unimplemented
             (''unsupported API version: service implements API version '%s' but asked for '%s''
                @ [CHR 0x27])
             [S apiVersion, S api])
         else None)
      else None)"

definition connect :: "faults \<Rightarrow> failure option" where
  "connect f =
     (case conn_err f of
        Some e \<Rightarrow>
          Some (Errorf Internal ''failed to connect to database, %+v'' [E (DriverErr e)])
      | None \<Rightarrow> None)"

definition Create ::
  "faults \<Rightarrow> database \<Rightarrow> CreateRequest \<Rightarrow> (failure + CreateResponse) \<times> database" where
  "Create f db req =
     (case checkAPI (CreateRequest.Api req) of
        Some e \<Rightarrow> (Inl e, db)
      | None \<Rightarrow>
     (case connect f of
        Some e \<Rightarrow> (Inl e, db)
      | None \<Rightarrow>
     (case CreateRequest.ToDo req of
        None \<Rightarrow> (Inl Panic, db)
      | Some td \<Rightarrow>
     (case ptypes_Timestamp (ToDo.Reminder td) of
        Inl e \<Rightarrow>
          (Inl (Errorf InvalidArgument ''reminder field has invalid format, %+v''
                  [E (TimestampErr e)]), db)
      | Inr reminder \<Rightarrow>
     (case ExecContext f db
             (INSERT (GetTitle (CreateRequest.ToDo req))
                (GetDescription (CreateRequest.ToDo req)) reminder) of
        Inl e \<Rightarrow> (Inl (Errorf Internal ''failed to insert into ToDo, %+v'' [E e]), db)
      | Inr (res, db') \<Rightarrow>
     (case LastInsertId f res of
        Inl e \<Rightarrow>
          (Inl (Errorf Internal ''failed to retrive id for created ToDo, %+v'' [E e]), db')
      | Inr i \<Rightarrow>
          (Inr \<lparr>CreateResponse.Api = apiVersion, CreateResponse.Id = i\<rparr>, db')))))))"

text \<open>
  Read runs its query on \<^verbatim>\<open>s.db\<close>, not on the connection \<^verbatim>\<open>c\<close> it has just taken;
  both reach the same table. The conversion of the stored time comes before the second
  \<^verbatim>\<open>rows.Next\<close>.
\<close>

definition Read ::
  "faults \<Rightarrow> database \<Rightarrow> ReadRequest \<Rightarrow> (failure + ReadResponse) \<times> database" where
  "Read f db req =
     (case checkAPI (ReadRequest.Api req) of
        Some e \<Rightarrow> (Inl e, db)
      | None \<Rightarrow>
     (case connect f of
        Some e \<Rightarrow> (Inl e, db)
      | None \<Rightarrow>
     (case QueryContext f db (SELECT_WHERE_ID (ReadRequest.Id req)) of
        Inl e \<Rightarrow> (Inl (Errorf Internal ''failed to select from ToDo, %+v'' [E e]), db)
      | Inr rows \<Rightarrow>
     (case Next rows of
        None \<Rightarrow>
          (case Err rows of
             Some e \<Rightarrow>
               (Inl (Errorf Internal ''failed to retrieve data from ToDo, %+v'' [E e]), db)
           | None \<Rightarrow>
               (Inl (Errorf NotFound ''ToDo with ID='%d' is not found''
                       [D (ReadRequest.Id req)]), db))
      | Some (r, rows') \<Rightarrow>
     (case Scan f [Addr, Addr, Addr, Addr] r of
        Inl e \<Rightarrow>
          (Inl (Errorf Internal ''failed to retrieve field value from ToDo row, %+v''
                  [E e]), db)
      | Inr v \<Rightarrow>
     (case ptypes_TimestampProto (col_Reminder v) of
        Inl e \<Rightarrow>
          (Inl (Errorf Internal ''reminder field has invalid format, %+v''
                  [E (TimestampErr e)]), db)
      | Inr ts \<Rightarrow>
     (case Next rows' of
        Some _ \<Rightarrow>
          (Inl (Errorf Internal (''found multiple ToDo rows with ID='%d'' @ [CHR 0x27])
                  [D (ReadRequest.Id req)]), db)
      | None \<Rightarrow>
          (Inr \<lparr>ReadResponse.Api = apiVersion,
                ReadResponse.ToDo =
                  Some \<lparr>ToDo.Id = col_ID v, ToDo.Title = col_Title v,
                        ToDo.Description = col_Description v,
                        ToDo.Reminder = Some ts\<rparr>\<rparr>, db))))))))"

definition Update ::
  "faults \<Rightarrow> database \<Rightarrow> UpdateRequest \<Rightarrow> (failure + UpdateResponse) \<times> database" where
  "Update f db req =
     (case checkAPI (UpdateRequest.Api req) of
        Some e \<Rightarrow> (Inl e, db)
      | None \<Rightarrow>
     (case connect f of
        Some e \<Rightarrow> (Inl e, db)
      | None \<Rightarrow>
     (case ptypes_Timestamp (GetReminder (UpdateRequest.ToDo req)) of
        Inl e \<Rightarrow>
          (Inl (Errorf InvalidArgument ''reminder filed has invalid format, %+v''
                  [E (TimestampErr e)]), db)
      | Inr reminder \<Rightarrow>
     (case ExecContext f db
             (UPDATE (GetTitle (UpdateRequest.ToDo req))
                (GetDescription (UpdateRequest.ToDo req)) reminder
                (GetId (UpdateRequest.ToDo req))) of
        Inl e \<Rightarrow> (Inl (Errorf Internal ''failed to update ToDo, %+v'' [E e]), db)
      | Inr (res, db') \<Rightarrow>
     (case RowsAffected f res of
        Inl e \<Rightarrow>
          (Inl (Errorf Internal ''failed to retrieve rows affected, %+v'' [E e]), db')
      | Inr rows \<Rightarrow>
          if rows = 0 then
            (Inl (Errorf NotFound ''ToDo with ID='%d' is not found''
                    [D (GetId (UpdateRequest.ToDo req))]), db')
          else
            (Inr \<lparr>UpdateResponse.Api = apiVersion, UpdateResponse.Updated = rows\<rparr>,
             db'))))))"

definition Delete ::
  "faults \<Rightarrow> database \<Rightarrow> DeleteRequest \<Rightarrow> (failure + DeleteResponse) \<times> database" where
  "Delete f db req =
     (case checkAPI (DeleteRequest.Api req) of
        Some e \<Rightarrow> (Inl e, db)
      | None \<Rightarrow>
     (case connect f of
        Some e \<Rightarrow> (Inl e, db)
      | None \<Rightarrow>
     (case ExecContext f db (DELETE (DeleteRequest.Id req)) of
        Inl e \<Rightarrow> (Inl (Errorf Internal ''failed to delete ToDo, %+v'' [E e]), db)
      | Inr (res, db') \<Rightarrow>
     (case RowsAffected f res of
        Inl e \<Rightarrow>
          (Inl (Errorf Internal ''failed to retrieve rows affected, %+v'' [E e]), db')
      | Inr rows \<Rightarrow>
          if rows = 0 then
            (Inl (Errorf NotFound ''ToDo with ID='%d' is not found''
                    [D (DeleteRequest.Id req)]), db')
          else
            (Inr \<lparr>DeleteResponse.Api = apiVersion, DeleteResponse.Deleted = rows\<rparr>,
             db')))))"

text \<open>
  The loop of ReadAll, \<^verbatim>\<open>for rows.Next() { ... }\<close>, over the rows the result set
  delivers. \<^verbatim>\<open>td := new(v1.ToDo)\<close> is the zero message; the source hands
  \<^verbatim>\<open>td.Id\<close>, \<^verbatim>\<open>td.Title\<close> and \<^verbatim>\<open>td.Description\<close> to \<^verbatim>\<open>rows.Scan\<close> as values and
  only \<^verbatim>\<open>&reminder\<close> as an address.
\<close>

definition new_ToDo :: ToDo where
  "new_ToDo = \<lparr>ToDo.Id = 0, ToDo.Title = [], ToDo.Description = [], ToDo.Reminder = None\<rparr>"

fun ReadAll_loop :: "faults \<Rightarrow> row list \<Rightarrow> ToDo list \<Rightarrow> failure + ToDo list" where
  "ReadAll_loop f [] list = Inr list"
| "ReadAll_loop f (r # rs) list =
     (case Scan f [Val, Val, Val, Addr] r of
        Inl e \<Rightarrow>
          Inl (Errorf Internal ''failed to retrieve field value from rows, %+v'' [E e])
      | Inr v \<Rightarrow>
     (case ptypes_TimestampProto (col_Reminder v) of
        Inl e \<Rightarrow>
          Inl (Errorf Internal ''reminder field has invalid format, %+v''
                 [E (TimestampErr e)])
      | Inr ts \<Rightarrow> ReadAll_loop f rs (list @ [new_ToDo\<lparr>ToDo.Reminder := Some ts\<rparr>])))"

definition ReadAll ::
  "faults \<Rightarrow> database \<Rightarrow> ReadAllRequest \<Rightarrow> (failure + ReadAllResponse) \<times> database" where
  "ReadAll f db req =
     (case checkAPI (ReadAllRequest.Api req) of
        Some e \<Rightarrow> (Inl e, db)
      | None \<Rightarrow>
     (case connect f of
        Some e \<Rightarrow> (Inl e, db)
      | None \<Rightarrow>
     (case QueryContext f db SELECT_ALL of
        Inl e \<Rightarrow> (Inl (Errorf Internal ''failed to select from ToDo, %+v'' [E e]), db)
      | Inr rows \<Rightarrow>
     (case ReadAll_loop f (pending rows) [] of
        Inl e \<Rightarrow> (Inl e, db)
      | Inr list \<Rightarrow>
     (case Err rows of
        Some e \<Rightarrow>
          (Inl (Errorf Internal ''failed to retrieve data from ToDo rows, %+v'' [E e]), db)
      | None \<Rightarrow>
          (Inr \<lparr>ReadAllResponse.Api = apiVersion, ReadAllResponse.ToDos = list\<rparr>,
           db))))))"

section \<open>The remote procedure interface\<close>

text \<open>
  Modelled from the spec: the generated interface \<^verbatim>\<open>v1.ToDoServiceServer\<close> is not under
  \<^verbatim>\<open>src/\<close>. Section 6 of the specification lists one method per operation, each taking
  its request message and returning its response message; \<open>serve\<close> hands a request to the
  handler of its operation.
\<close>

datatype request =
    CreateReq CreateRequest
  | ReadReq ReadRequest
  | UpdateReq UpdateRequest
  | DeleteReq DeleteRequest
  | ReadAllReq ReadAllRequest

datatype response =
    CreateResp CreateResponse
  | ReadResp ReadResponse
  | UpdateResp UpdateResponse
  | DeleteResp DeleteResponse
  | ReadAllResp ReadAllResponse

fun request_api :: "request \<Rightarrow> string" where
  "request_api (CreateReq r) = CreateRequest.Api r"
| "request_api (ReadReq r) = ReadRequest.Api r"
| "request_api (UpdateReq r) = UpdateRequest.Api r"
| "request_api (DeleteReq r) = DeleteRequest.Api r"
| "request_api (ReadAllReq r) = ReadAllRequest.Api r"

fun response_api :: "response \<Rightarrow> string" where
  "response_api (CreateResp r) = CreateResponse.Api r"
| "response_api (ReadResp r) = ReadResponse.Api r"
| "response_api (UpdateResp r) = UpdateResponse.Api r"
| "response_api (DeleteResp r) = DeleteResponse.Api r"
| "response_api (ReadAllResp r) = ReadAllResponse.Api r"

definition wrap ::
  "('a \<Rightarrow> response) \<Rightarrow> (failure + 'a) \<times> database \<Rightarrow> (failure + response) \<times> database" where
  "wrap c p = (map_sum id c (fst p), snd p)"

fun serve :: "faults \<Rightarrow> database \<Rightarrow> request \<Rightarrow> (failure + response) \<times> database" where
  "serve f db (CreateReq r) = wrap CreateResp (Create f db r)"
| "serve f db (ReadReq r) = wrap ReadResp (Read f db r)"
| "serve f db (UpdateReq r) = wrap UpdateResp (Update f db r)"
| "serve f db (DeleteReq r) = wrap DeleteResp (Delete f db r)"
| "serve f db (ReadAllReq r) = wrap ReadAllResp (ReadAll f db r)"

text \<open>The status code of a failure; a panic carries none.\<close>

fun code_of :: "failure \<Rightarrow> codes option" where
  "code_of (Errorf c m as) = Some c"
| "code_of Panic = None"

text \<open>The status code a call ends with, if it fails with one.\<close>

definition status_of :: "failure + 'a \<Rightarrow> codes option" where
  "status_of x = (case x of Inl e \<Rightarrow> code_of e | Inr y \<Rightarrow> None)"

section \<open>Invariants of the table\<close>

text \<open>
  The table's schema makes \<^verbatim>\<open>ID\<close> the primary key, assigned by the engine's
  auto-increment: no two rows share an identifier, and every identifier in use lies below
  the counter.
\<close>

definition primary_key :: "database \<Rightarrow> bool" where
  "primary_key db \<longleftrightarrow>
     distinct (map col_ID (table db)) \<and> (\<forall>r \<in> set (table db). col_ID r < auto_increment db)"

text \<open>The rows a \<^verbatim>\<open>WHERE ID = ?\<close> clause selects.\<close>

definition matching :: "database \<Rightarrow> int \<Rightarrow> row list" where
  "matching db i = filter (\<lambda>x. col_ID x = i) (table db)"

section \<open>Sample values\<close>

definition db_empty :: database where
  "db_empty = \<lparr>table = [], auto_increment = 1\<rparr>"

definition ts_sample :: Timestamp where
  "ts_sample = \<lparr>Seconds = 1700000000, Nanos = 123456789\<rparr>"

definition todo_sample :: ToDo where
  "todo_sample = \<lparr>ToDo.Id = 0, ToDo.Title = ''Buy milk'', ToDo.Description = ''2%'',
                   ToDo.Reminder = Some ts_sample\<rparr>"

definition row_sample :: row where
  "row_sample = \<lparr>col_ID = 1, col_Title = ''Buy milk'', col_Description = ''2%'',
                  col_Reminder = \<lparr>Unix = 1700000000, Nanosecond = 123456789\<rparr>\<rparr>"

definition db_one :: database where
  "db_one = \<lparr>table = [row_sample], auto_increment = 2\<rparr>"

text \<open>A row whose stored time is the first second of the year 10000.\<close>

definition row_late :: row where
  "row_late = \<lparr>col_ID = 1, col_Title = ''Buy milk'', col_Description = ''2%'',
                col_Reminder = \<lparr>Unix = 253402300800, Nanosecond = 0\<rparr>\<rparr>"

definition db_late :: database where
  "db_late = \<lparr>table = [row_late], auto_increment = 2\<rparr>"

text \<open>A table that breaks the primary key: two rows with the identifier 1.\<close>

definition row_twin :: row where
  "row_twin = \<lparr>col_ID = 1, col_Title = ''Buy oat milk'', col_Description = ''1l'',
                col_Reminder = \<lparr>Unix = 1700000060, Nanosecond = 0\<rparr>\<rparr>"

definition db_twins :: database where
  "db_twins = \<lparr>table = [row_sample, row_twin], auto_increment = 2\<rparr>"

text \<open>A timestamp whose nanoseconds are out of range, and two messages.\<close>

definition ts_bad :: Timestamp where
  "ts_bad = \<lparr>Seconds = 1700000000, Nanos = 1000000000\<rparr>"

definition todo_absent :: ToDo where
  "todo_absent = \<lparr>ToDo.Id = 7, ToDo.Title = ''Buy oat milk'', ToDo.Description = ''1l'',
                   ToDo.Reminder = Some ts_sample\<rparr>"

definition todo_bad :: ToDo where
  "todo_bad = \<lparr>ToDo.Id = 0, ToDo.Title = ''Buy milk'', ToDo.Description = ''2%'',
                ToDo.Reminder = Some ts_bad\<rparr>"

section \<open>Auxiliary facts\<close>

lemma checkAPI_empty: "checkAPI [] = None"
  by (simp add: checkAPI_def)

lemma checkAPI_None_iff: "checkAPI api = None \<longleftrightarrow> api = [] \<or> api = apiVersion"
  by (auto simp: checkAPI_def)

lemma checkAPI_reject:
  "api \<noteq> [] \<Longrightarrow> api \<noteq> apiVersion \<Longrightarrow>
   checkAPI api =
     Some (Errorf Unimplemented
       (''unsupported API version: service implements API version '%s' but asked for '%s''
          @ [CHR 0x27])
       [S apiVersion, S api])"
  by (simp add: checkAPI_def)

lemma healthy_simps:
  "healthy f \<Longrightarrow> conn_err f = None"
  "healthy f \<Longrightarrow> stmt_err f = None"
  "healthy f \<Longrightarrow> result_err f = None"
  "healthy f \<Longrightarrow> next_err f = None"
  "healthy f \<Longrightarrow> scan_err f = None"
  by (simp_all add: healthy_def)

lemma healthy_no_faults: "healthy no_faults"
  by (simp add: healthy_def no_faults_def)

lemma Timestamp_valid:
  "validateTimestamp (Some ts) = None \<Longrightarrow>
   ptypes_Timestamp (Some ts) = Inr \<lparr>Unix = Seconds ts, Nanosecond = Nanos ts\<rparr>"
  by (simp add: ptypes_Timestamp_def)

lemma Timestamp_roundtrip:
  "ptypes_Timestamp (Some ts) = Inr t \<Longrightarrow> ptypes_TimestampProto t = Inr ts"
  by (cases ts)
    (auto simp: ptypes_Timestamp_def ptypes_TimestampProto_def Let_def split: option.splits)

lemma ReadAll_loop_Internal:
  "ReadAll_loop f rs l = Inl e \<Longrightarrow> code_of e = Some Internal"
  by (induction rs arbitrary: l) (auto split: sum.splits)

text \<open>Only the version check produces the code Unimplemented.\<close>

lemma Create_Unimplemented:
  "fst (Create f db r) = Inl e \<Longrightarrow> code_of e = Some Unimplemented \<Longrightarrow>
   checkAPI (CreateRequest.Api r) = Some e"
  by (auto simp: Create_def connect_def split: option.splits sum.splits prod.splits)

lemma Read_Unimplemented:
  "fst (Read f db r) = Inl e \<Longrightarrow> code_of e = Some Unimplemented \<Longrightarrow>
   checkAPI (ReadRequest.Api r) = Some e"
  by (auto simp: Read_def connect_def split: option.splits sum.splits prod.splits)

lemma Update_Unimplemented:
  "fst (Update f db r) = Inl e \<Longrightarrow> code_of e = Some Unimplemented \<Longrightarrow>
   checkAPI (UpdateRequest.Api r) = Some e"
  by (auto simp: Update_def connect_def
      split: option.splits sum.splits prod.splits if_splits)

lemma Delete_Unimplemented:
  "fst (Delete f db r) = Inl e \<Longrightarrow> code_of e = Some Unimplemented \<Longrightarrow>
   checkAPI (DeleteRequest.Api r) = Some e"
  by (auto simp: Delete_def connect_def
      split: option.splits sum.splits prod.splits if_splits)

lemma ReadAll_Unimplemented:
  "fst (ReadAll f db r) = Inl e \<Longrightarrow> code_of e = Some Unimplemented \<Longrightarrow>
   checkAPI (ReadAllRequest.Api r) = Some e"
  by (auto simp: ReadAll_def connect_def dest: ReadAll_loop_Internal
      split: option.splits sum.splits prod.splits)

lemma serve_Unimplemented:
  assumes "status_of (fst (serve f db req)) = Some Unimplemented"
  shows "checkAPI (request_api req) \<noteq> None"
proof (cases req)
  case (CreateReq r)
  with assms show ?thesis
    by (cases "fst (Create f db r)")
      (auto simp: wrap_def status_of_def dest: Create_Unimplemented)
next
  case (ReadReq r)
  with assms show ?thesis
    by (cases "fst (Read f db r)")
      (auto simp: wrap_def status_of_def dest: Read_Unimplemented)
next
  case (UpdateReq r)
  with assms show ?thesis
    by (cases "fst (Update f db r)")
      (auto simp: wrap_def status_of_def dest: Update_Unimplemented)
next
  case (DeleteReq r)
  with assms show ?thesis
    by (cases "fst (Delete f db r)")
      (auto simp: wrap_def status_of_def dest: Delete_Unimplemented)
next
  case (ReadAllReq r)
  with assms show ?thesis
    by (cases "fst (ReadAll f db r)")
      (auto simp: wrap_def status_of_def dest: ReadAll_Unimplemented)
qed

text \<open>
  Read when the storage collaborator reports no failure: the outcome as a function of the
  rows that match the identifier.
\<close>

lemma Read_healthy:
  assumes "healthy f" and "checkAPI (ReadRequest.Api req) = None"
  shows "Read f db req =
     (case matching db (ReadRequest.Id req) of
        [] \<Rightarrow>
          (Inl (Errorf NotFound ''ToDo with ID='%d' is not found''
                  [D (ReadRequest.Id req)]), db)
      | r # rest \<Rightarrow>
          (case ptypes_TimestampProto (col_Reminder r) of
             Inl e \<Rightarrow>
               (Inl (Errorf Internal ''reminder field has invalid format, %+v''
                       [E (TimestampErr e)]), db)
           | Inr ts \<Rightarrow>
               (case rest of
                  [] \<Rightarrow>
                    (Inr \<lparr>ReadResponse.Api = apiVersion,
                          ReadResponse.ToDo =
                            Some \<lparr>ToDo.Id = col_ID r, ToDo.Title = col_Title r,
                                  ToDo.Description = col_Description r,
                                  ToDo.Reminder = Some ts\<rparr>\<rparr>, db)
                | _ # _ \<Rightarrow>
                    (Inl (Errorf Internal
                            (''found multiple ToDo rows with ID='%d'' @ [CHR 0x27])
                            [D (ReadRequest.Id req)]), db))))"
  using assms
  by (simp add: Read_def connect_def QueryContext_def Next_def Scan_def matching_def
      healthy_simps split: list.splits sum.splits)

lemma count_one:
  "distinct (map col_ID xs) \<Longrightarrow> i \<in> col_ID ` set xs \<Longrightarrow>
   length (filter (\<lambda>x. col_ID x = i) xs) = 1"
proof (induction xs)
  case Nil
  then show ?case by simp
next
  case (Cons x xs)
  show ?case
  proof (cases "col_ID x = i")
    case True
    with Cons.prems have "\<forall>y \<in> set xs. col_ID y \<noteq> i" by (auto simp: image_iff)
    then have "filter (\<lambda>x. col_ID x = i) xs = []" by (simp add: filter_empty_conv)
    with True show ?thesis by simp
  next
    case False
    with Cons show ?thesis by auto
  qed
qed

lemma count_zero:
  "i \<notin> col_ID ` set xs \<Longrightarrow> filter (\<lambda>x. col_ID x = i) xs = []"
  by (auto simp: filter_empty_conv)

lemma update_none:
  "i \<notin> col_ID ` set xs \<Longrightarrow> map (\<lambda>x. if col_ID x = i then g x else x) xs = xs"
  by (induction xs) auto

lemma sample_simps:
  "healthy no_faults"
  "primary_key db_one"
  "primary_key db_empty"
  "checkAPI ''v1'' = None"
  "checkAPI [] = None"
  "validateTimestamp (Some ts_sample) = None"
  by (simp_all add: healthy_def no_faults_def primary_key_def db_one_def db_empty_def
      row_sample_def checkAPI_def apiVersion_def validateTimestamp_def ts_sample_def
      minValidSeconds_def maxValidSeconds_def)

text \<open>
  ReadAll on a table that is not empty, when the storage collaborator reports no failure:
  the first call of \<^verbatim>\<open>rows.Scan\<close> fails.
\<close>

lemma ReadAll_nonempty:
  assumes "healthy f" and "checkAPI (ReadAllRequest.Api req) = None" and "table db \<noteq> []"
  shows "ReadAll f db req =
     (Inl (Errorf Internal ''failed to retrieve field value from rows, %+v''
             [E DestinationNotAPointer]), db)"
proof -
  from assms(3) obtain r rs where "table db = r # rs" by (cases "table db") auto
  with assms(1,2) show ?thesis
    by (simp add: ReadAll_def connect_def QueryContext_def Scan_def healthy_simps)
qed

text \<open>A successful call has passed the version check and answers with the server's version.\<close>

lemma Create_success:
  "fst (Create f db r) = Inr resp \<Longrightarrow>
   CreateResponse.Api resp = apiVersion \<and> checkAPI (CreateRequest.Api r) = None"
  by (auto simp: Create_def split: option.splits sum.splits prod.splits)

lemma Read_success:
  "fst (Read f db r) = Inr resp \<Longrightarrow>
   ReadResponse.Api resp = apiVersion \<and> checkAPI (ReadRequest.Api r) = None"
  by (auto simp: Read_def split: option.splits sum.splits prod.splits)

lemma Update_success:
  "fst (Update f db r) = Inr resp \<Longrightarrow>
   UpdateResponse.Api resp = apiVersion \<and> checkAPI (UpdateRequest.Api r) = None"
  by (auto simp: Update_def split: option.splits sum.splits prod.splits if_splits)

lemma Delete_success:
  "fst (Delete f db r) = Inr resp \<Longrightarrow>
   DeleteResponse.Api resp = apiVersion \<and> checkAPI (DeleteRequest.Api r) = None"
  by (auto simp: Delete_def split: option.splits sum.splits prod.splits if_splits)

lemma ReadAll_success:
  "fst (ReadAll f db r) = Inr resp \<Longrightarrow>
   ReadAllResponse.Api resp = apiVersion \<and> checkAPI (ReadAllRequest.Api r) = None"
  by (auto simp: ReadAll_def split: option.splits sum.splits prod.splits)

lemma serve_success:
  assumes "fst (serve f db req) = Inr resp"
  shows "response_api resp = apiVersion \<and> checkAPI (request_api req) = None"
proof (cases req)
  case (CreateReq r)
  with assms show ?thesis
    by (cases "fst (Create f db r)") (auto simp: wrap_def dest: Create_success)
next
  case (ReadReq r)
  with assms show ?thesis
    by (cases "fst (Read f db r)") (auto simp: wrap_def dest: Read_success)
next
  case (UpdateReq r)
  with assms show ?thesis
    by (cases "fst (Update f db r)") (auto simp: wrap_def dest: Update_success)
next
  case (DeleteReq r)
  with assms show ?thesis
    by (cases "fst (Delete f db r)") (auto simp: wrap_def dest: Delete_success)
next
  case (ReadAllReq r)
  with assms show ?thesis
    by (cases "fst (ReadAll f db r)") (auto simp: wrap_def dest: ReadAll_success)
qed

lemma Create_sample:
  "Create no_faults db_empty \<lparr>CreateRequest.Api = api, CreateRequest.ToDo = Some todo_sample\<rparr> =
     (if api = [] \<or> api = ''v1'' then
        (Inr \<lparr>CreateResponse.Api = ''v1'', CreateResponse.Id = 1\<rparr>,
          \<lparr>table = [row_sample], auto_increment = 2\<rparr>)
      else (Inl (the (checkAPI api)), db_empty))"
  by (auto simp: Create_def checkAPI_def apiVersion_def connect_def no_faults_def
      todo_sample_def ptypes_Timestamp_def validateTimestamp_def ts_sample_def
      minValidSeconds_def maxValidSeconds_def ExecContext_def LastInsertId_def
      GetTitle_def GetDescription_def db_empty_def row_sample_def)

text \<open>The statements of the service keep the primary key of the table.\<close>

lemma run_stmt_primary_key:
  "primary_key db \<Longrightarrow> primary_key (snd (run_stmt db s))"
proof (cases s)
  case (INSERT t d r)
  assume "primary_key db"
  then show ?thesis
    using INSERT by (fastforce simp: primary_key_def)
next
  case (UPDATE t d r i)
  have ids: "map col_ID (map (\<lambda>x. if col_ID x = i
        then x\<lparr>col_Title := t, col_Description := d, col_Reminder := r\<rparr> else x) xs) =
      map col_ID xs" for xs
    by (induction xs) auto
  assume "primary_key db"
  then show ?thesis
    using UPDATE ids [of "table db"] by (auto simp: primary_key_def simp del: map_map)
next
  case (DELETE i)
  assume "primary_key db"
  then show ?thesis
    using DELETE by (auto simp: primary_key_def distinct_map_filter)
qed

lemma ExecContext_run:
  "ExecContext f db s = Inr (res, db') \<Longrightarrow> db' = snd (run_stmt db s)"
  by (auto simp: ExecContext_def split: option.splits)

lemma Create_state:
  "snd (Create f db r) = db \<or> (\<exists>s. snd (Create f db r) = snd (run_stmt db s))"
  by (auto simp: Create_def simp del: run_stmt.simps dest!: ExecContext_run
      split: option.splits sum.splits prod.splits)

lemma Update_state:
  "snd (Update f db r) = db \<or> (\<exists>s. snd (Update f db r) = snd (run_stmt db s))"
  by (auto simp: Update_def simp del: run_stmt.simps dest!: ExecContext_run
      split: option.splits sum.splits prod.splits)

lemma Delete_state:
  "snd (Delete f db r) = db \<or> (\<exists>s. snd (Delete f db r) = snd (run_stmt db s))"
  by (auto simp: Delete_def simp del: run_stmt.simps dest!: ExecContext_run
      split: option.splits sum.splits prod.splits)

lemma Read_state: "snd (Read f db r) = db"
  by (auto simp: Read_def split: option.splits sum.splits prod.splits)

lemma ReadAll_state: "snd (ReadAll f db r) = db"
  by (auto simp: ReadAll_def split: option.splits sum.splits prod.splits)

text \<open>Every operation keeps the primary key of the table.\<close>

lemma serve_primary_key:
  assumes "primary_key db"
  shows "primary_key (snd (serve f db req))"
proof (cases req)
  case (CreateReq r)
  with assms Create_state [of f db r] show ?thesis
    by (auto simp: wrap_def simp del: run_stmt.simps intro: run_stmt_primary_key)
next
  case (ReadReq r)
  with assms show ?thesis
    by (simp add: wrap_def Read_state)
next
  case (UpdateReq r)
  with assms Update_state [of f db r] show ?thesis
    by (auto simp: wrap_def simp del: run_stmt.simps intro: run_stmt_primary_key)
next
  case (DeleteReq r)
  with assms Delete_state [of f db r] show ?thesis
    by (auto simp: wrap_def simp del: run_stmt.simps intro: run_stmt_primary_key)
next
  case (ReadAllReq r)
  with assms show ?thesis
    by (simp add: wrap_def ReadAll_state)
qed

section \<open>Properties of the service\<close>

text \<open>
  C3. A request on any of the five operations whose \<open>api\<close> field is not empty and differs
  from the server's version fails with the code Unimplemented, with a message built from the
  expected and the requested version. The result is the same for every state of the table
  and whatever the storage collaborator would report, and the table is returned unchanged:
  the check comes before any access to the database. An empty \<open>api\<close> field passes the check,
  and no operation called with it ends with the code Unimplemented.
\<close>

theorem unsupported_version_rejected:
  "(request_api req \<noteq> [] \<and> request_api req \<noteq> apiVersion \<longrightarrow>
      serve f db req =
        (Inl (Errorf Unimplemented
           (''unsupported API version: service implements API version '%s' but asked for '%s''
              @ [CHR 0x27])
           [S apiVersion, S (request_api req)]), db)) \<and>
   (request_api req = [] \<longrightarrow>
      checkAPI (request_api req) = None \<and>
      status_of (fst (serve f db req)) \<noteq> Some Unimplemented)"
proof (intro conjI impI)
  assume "request_api req \<noteq> [] \<and> request_api req \<noteq> apiVersion"
  then have "checkAPI (request_api req) =
     Some (Errorf Unimplemented
       (''unsupported API version: service implements API version '%s' but asked for '%s''
          @ [CHR 0x27])
       [S apiVersion, S (request_api req)])"
    by (simp add: checkAPI_reject)
  then show "serve f db req =
     (Inl (Errorf Unimplemented
        (''unsupported API version: service implements API version '%s' but asked for '%s''
           @ [CHR 0x27])
        [S apiVersion, S (request_api req)]), db)"
    by (cases req)
      (simp_all add: wrap_def Create_def Read_def Update_def Delete_def ReadAll_def)
next
  assume "request_api req = []"
  then show "checkAPI (request_api req) = None"
    by (simp add: checkAPI_empty)
next
  assume empty: "request_api req = []"
  show "status_of (fst (serve f db req)) \<noteq> Some Unimplemented"
  proof
    assume "status_of (fst (serve f db req)) = Some Unimplemented"
    from serve_Unimplemented [OF this] empty show False
      by (simp add: checkAPI_empty)
  qed
qed

theorem unsupported_version_rejected_witness:
  "(request_api (ReadReq \<lparr>ReadRequest.Api = ''v2'', ReadRequest.Id = 1\<rparr>) \<noteq> [] \<and>
    request_api (ReadReq \<lparr>ReadRequest.Api = ''v2'', ReadRequest.Id = 1\<rparr>) \<noteq> apiVersion) \<and>
   serve no_faults db_one (ReadReq \<lparr>ReadRequest.Api = ''v2'', ReadRequest.Id = 1\<rparr>) =
     (Inl (Errorf Unimplemented
        (''unsupported API version: service implements API version '%s' but asked for '%s''
           @ [CHR 0x27])
        [S ''v1'', S ''v2'']), db_one) \<and>
   request_api (ReadAllReq \<lparr>ReadAllRequest.Api = []\<rparr>) = [] \<and>
   checkAPI [] = None \<and>
   status_of (fst (serve no_faults db_empty (ReadAllReq \<lparr>ReadAllRequest.Api = []\<rparr>))) \<noteq>
     Some Unimplemented"
  using
    unsupported_version_rejected
      [of "ReadReq \<lparr>ReadRequest.Api = ''v2'', ReadRequest.Id = 1\<rparr>" no_faults db_one]
    unsupported_version_rejected
      [of "ReadAllReq \<lparr>ReadAllRequest.Api = []\<rparr>" no_faults db_empty]
  by (simp add: apiVersion_def)

text \<open>
  C1. Create followed by Read of the returned identifier. For a request whose to-do item
  carries a valid wire timestamp, on a table that satisfies its primary key, with an accepted
  API version on both calls and a storage collaborator that reports no failure, Create
  succeeds and Read of the identifier it returned yields that identifier with exactly the
  submitted title, description and reminder: the reminder comes back as the same pair of
  seconds and nanoseconds.
\<close>

theorem create_then_read_roundtrip:
  assumes "healthy f" and "healthy f'" and "primary_key db"
    and "checkAPI api = None" and "checkAPI api' = None"
    and "validateTimestamp (Some ts) = None"
  shows
    "case Create f db
            \<lparr>CreateRequest.Api = api,
             CreateRequest.ToDo =
               Some \<lparr>ToDo.Id = j, ToDo.Title = t, ToDo.Description = d,
                     ToDo.Reminder = Some ts\<rparr>\<rparr> of
       (Inl e, db') \<Rightarrow> False
     | (Inr resp, db') \<Rightarrow>
         Read f' db' \<lparr>ReadRequest.Api = api', ReadRequest.Id = CreateResponse.Id resp\<rparr> =
           (Inr \<lparr>ReadResponse.Api = apiVersion,
                 ReadResponse.ToDo =
                   Some \<lparr>ToDo.Id = CreateResponse.Id resp, ToDo.Title = t,
                         ToDo.Description = d, ToDo.Reminder = Some ts\<rparr>\<rparr>, db')"
proof -
  let ?t = "\<lparr>Unix = Seconds ts, Nanosecond = Nanos ts\<rparr>"
  let ?r = "\<lparr>col_ID = auto_increment db, col_Title = t, col_Description = d,
             col_Reminder = ?t\<rparr>"
  let ?db' = "db\<lparr>table := table db @ [?r], auto_increment := auto_increment db + 1\<rparr>"
  have created:
    "Create f db
       \<lparr>CreateRequest.Api = api,
        CreateRequest.ToDo =
          Some \<lparr>ToDo.Id = j, ToDo.Title = t, ToDo.Description = d,
                ToDo.Reminder = Some ts\<rparr>\<rparr> =
     (Inr \<lparr>CreateResponse.Api = apiVersion, CreateResponse.Id = auto_increment db\<rparr>, ?db')"
    using assms
    by (simp add: Create_def connect_def ExecContext_def LastInsertId_def healthy_simps
        Timestamp_valid GetTitle_def GetDescription_def)
  from \<open>primary_key db\<close> have "auto_increment db \<notin> col_ID ` set (table db)"
    by (auto simp: primary_key_def)
  then have found: "matching ?db' (auto_increment db) = [?r]"
    by (simp add: matching_def count_zero)
  have restored: "ptypes_TimestampProto ?t = Inr ts"
    using \<open>validateTimestamp (Some ts) = None\<close>
    by (simp add: Timestamp_roundtrip Timestamp_valid)
  show ?thesis
    using \<open>healthy f'\<close> \<open>checkAPI api' = None\<close>
    by (simp add: created Read_healthy found restored)
qed

theorem create_then_read_roundtrip_witness:
  "healthy no_faults \<and> primary_key db_one \<and> checkAPI ''v1'' = None \<and> checkAPI [] = None \<and>
   validateTimestamp (Some ts_sample) = None \<and>
   (case Create no_faults db_one
            \<lparr>CreateRequest.Api = ''v1'',
             CreateRequest.ToDo =
               Some \<lparr>ToDo.Id = 0, ToDo.Title = ''Buy milk'', ToDo.Description = ''2%'',
                     ToDo.Reminder = Some ts_sample\<rparr>\<rparr> of
       (Inl e, db') \<Rightarrow> False
     | (Inr resp, db') \<Rightarrow>
         Read no_faults db' \<lparr>ReadRequest.Api = [], ReadRequest.Id = CreateResponse.Id resp\<rparr> =
           (Inr \<lparr>ReadResponse.Api = apiVersion,
                 ReadResponse.ToDo =
                   Some \<lparr>ToDo.Id = CreateResponse.Id resp, ToDo.Title = ''Buy milk'',
                         ToDo.Description = ''2%'', ToDo.Reminder = Some ts_sample\<rparr>\<rparr>, db'))"
  using sample_simps
    create_then_read_roundtrip [OF sample_simps(1) sample_simps(1) sample_simps(2)
      sample_simps(4) sample_simps(5) sample_simps(6),
      where j = 0 and t = "''Buy milk''" and d = "''2%''"]
  by simp

text \<open>
  C2. Read with an accepted API version, when the storage collaborator reports
  no failure, is decided by the rows that match the identifier. No row: a not-found error.
  Exactly one row: the decoded entity with the stored time converted to the wire timestamp
  when that time lies in the range of the wire format, and an internal error when the
  conversion fails. More than one row: an internal error. The table is never changed.
\<close>


theorem read_outcomes:
  assumes "healthy f" and "checkAPI (ReadRequest.Api req) = None"
  shows
    "case matching db (ReadRequest.Id req) of
       [] \<Rightarrow>
         Read f db req =
           (Inl (Errorf NotFound ''ToDo with ID='%d' is not found''
                   [D (ReadRequest.Id req)]), db)
     | [r] \<Rightarrow>
         Read f db req =
           (case ptypes_TimestampProto (col_Reminder r) of
              Inr ts \<Rightarrow>
                (Inr \<lparr>ReadResponse.Api = apiVersion,
                      ReadResponse.ToDo =
                        Some \<lparr>ToDo.Id = col_ID r, ToDo.Title = col_Title r,
                              ToDo.Description = col_Description r,
                              ToDo.Reminder = Some ts\<rparr>\<rparr>, db)
            | Inl e \<Rightarrow>
                (Inl (Errorf Internal ''reminder field has invalid format, %+v''
                        [E (TimestampErr e)]), db))
     | r # r' # rest \<Rightarrow>
         status_of (fst (Read f db req)) = Some Internal \<and> snd (Read f db req) = db"
  by (simp add: Read_healthy [OF assms] status_of_def split: list.splits sum.splits)

theorem read_outcomes_witness:
  "healthy no_faults \<and> checkAPI ''v1'' = None \<and>
   matching db_empty 1 = [] \<and>
   Read no_faults db_empty \<lparr>ReadRequest.Api = ''v1'', ReadRequest.Id = 1\<rparr> =
     (Inl (Errorf NotFound ''ToDo with ID='%d' is not found'' [D 1]), db_empty) \<and>
   matching db_one 1 = [row_sample] \<and>
   Read no_faults db_one \<lparr>ReadRequest.Api = ''v1'', ReadRequest.Id = 1\<rparr> =
     (Inr \<lparr>ReadResponse.Api = ''v1'',
           ReadResponse.ToDo =
             Some \<lparr>ToDo.Id = 1, ToDo.Title = ''Buy milk'', ToDo.Description = ''2%'',
                   ToDo.Reminder = Some ts_sample\<rparr>\<rparr>, db_one) \<and>
   matching db_twins 1 = [row_sample, row_twin] \<and>
   status_of (fst (Read no_faults db_twins \<lparr>ReadRequest.Api = ''v1'', ReadRequest.Id = 1\<rparr>)) =
     Some Internal"
  using sample_simps(1,4)
    read_outcomes [of no_faults "\<lparr>ReadRequest.Api = ''v1'', ReadRequest.Id = 1\<rparr>" db_empty]
    read_outcomes [of no_faults "\<lparr>ReadRequest.Api = ''v1'', ReadRequest.Id = 1\<rparr>" db_one]
    read_outcomes [of no_faults "\<lparr>ReadRequest.Api = ''v1'', ReadRequest.Id = 1\<rparr>" db_twins]
  by (simp add: matching_def db_empty_def db_one_def db_twins_def row_sample_def row_twin_def
      ptypes_TimestampProto_def validateTimestamp_def minValidSeconds_def maxValidSeconds_def
      ts_sample_def apiVersion_def)

text \<open>
  A fourth outcome of Read: one matching row whose stored time (the first second of the year
  10000) has no wire timestamp. Read answers with an internal error, not with the entity.
\<close>

theorem read_unconvertible_time_counterexample:
  "checkAPI ''v1'' = None \<and> length (matching db_late 1) = 1 \<and>
   Read no_faults db_late \<lparr>ReadRequest.Api = ''v1'', ReadRequest.Id = 1\<rparr> =
     (Inl (Errorf Internal ''reminder field has invalid format, %+v''
             [E (TimestampErr AfterMax)]), db_late)"
  by (simp add: Read_healthy [OF sample_simps(1)] sample_simps matching_def db_late_def
      row_late_def ptypes_TimestampProto_def validateTimestamp_def minValidSeconds_def
      maxValidSeconds_def)

text \<open>
  C4. ReadAll on a table that holds one row, with the version \<open>v1\<close> and a storage
  collaborator that reports no failure: the call does not return the row. The first
  \<^verbatim>\<open>rows.Scan\<close> is given \<^verbatim>\<open>td.Id\<close>, \<^verbatim>\<open>td.Title\<close> and \<^verbatim>\<open>td.Description\<close> as values,
  \<^verbatim>\<open>database/sql\<close> answers "destination not a pointer", and ReadAll returns an internal
  error. Read hands the addresses of the same fields to \<^verbatim>\<open>rows.Scan\<close>.
\<close>

theorem readall_nonempty_fails:
  "table db_one \<noteq> [] \<and>
   ReadAll no_faults db_one \<lparr>ReadAllRequest.Api = ''v1''\<rparr> =
     (Inl (Errorf Internal ''failed to retrieve field value from rows, %+v''
             [E DestinationNotAPointer]), db_one)"
proof -
  have nonempty: "table db_one \<noteq> []"
    by (simp add: db_one_def)
  have "checkAPI (ReadAllRequest.Api \<lparr>ReadAllRequest.Api = ''v1''\<rparr>) = None"
    by (simp add: sample_simps)
  from ReadAll_nonempty [OF sample_simps(1) this nonempty] nonempty show ?thesis
    by simp
qed

text \<open>
  C5. The \<open>api\<close> field of a successful response, on every operation, is the server's
  version constant. It equals the \<open>api\<close> field of the request whenever that field is not
  empty.
\<close>

theorem response_api_is_server_version:
  assumes "fst (serve f db req) = Inr resp"
  shows "response_api resp = apiVersion \<and>
         (request_api req \<noteq> [] \<longrightarrow> response_api resp = request_api req)"
  using serve_success [OF assms] by (auto simp: checkAPI_None_iff)

theorem response_api_is_server_version_witness:
  "fst (serve no_faults db_empty
          (CreateReq \<lparr>CreateRequest.Api = ''v1'', CreateRequest.ToDo = Some todo_sample\<rparr>)) =
     Inr (CreateResp \<lparr>CreateResponse.Api = ''v1'', CreateResponse.Id = 1\<rparr>) \<and>
   response_api (CreateResp \<lparr>CreateResponse.Api = ''v1'', CreateResponse.Id = 1\<rparr>) = apiVersion \<and>
   request_api (CreateReq \<lparr>CreateRequest.Api = ''v1'', CreateRequest.ToDo = Some todo_sample\<rparr>) \<noteq> [] \<and>
   response_api (CreateResp \<lparr>CreateResponse.Api = ''v1'', CreateResponse.Id = 1\<rparr>) =
     request_api (CreateReq \<lparr>CreateRequest.Api = ''v1'', CreateRequest.ToDo = Some todo_sample\<rparr>)"
proof -
  have ok: "fst (serve no_faults db_empty
          (CreateReq \<lparr>CreateRequest.Api = ''v1'', CreateRequest.ToDo = Some todo_sample\<rparr>)) =
     Inr (CreateResp \<lparr>CreateResponse.Api = ''v1'', CreateResponse.Id = 1\<rparr>)"
    by (simp add: wrap_def Create_sample)
  from response_api_is_server_version [OF ok] ok show ?thesis
    by (simp add: apiVersion_def)
qed

text \<open>
  A request with an empty \<open>api\<close> field is answered with the version \<open>v1\<close>: the response
  does not repeat the request's field.
\<close>

theorem empty_api_not_echoed_counterexample:
  "fst (serve no_faults db_empty
          (CreateReq \<lparr>CreateRequest.Api = [], CreateRequest.ToDo = Some todo_sample\<rparr>)) =
     Inr (CreateResp \<lparr>CreateResponse.Api = ''v1'', CreateResponse.Id = 1\<rparr>) \<and>
   response_api (CreateResp \<lparr>CreateResponse.Api = ''v1'', CreateResponse.Id = 1\<rparr>) \<noteq>
     request_api (CreateReq \<lparr>CreateRequest.Api = [], CreateRequest.ToDo = Some todo_sample\<rparr>)"
  by (simp add: wrap_def Create_sample)

text \<open>
  C6. Update with an accepted API version and a valid reminder, for an identifier that
  matches no row: the table after the call is the table before it, whatever the storage
  collaborator reports, and when it reports no failure the call returns a not-found error.
\<close>

theorem update_missing_not_found:
  assumes "checkAPI (UpdateRequest.Api req) = None"
    and "validateTimestamp (GetReminder (UpdateRequest.ToDo req)) = None"
    and "matching db (GetId (UpdateRequest.ToDo req)) = []"
  shows "snd (Update f db req) = db \<and>
         (healthy f \<longrightarrow>
            Update f db req =
              (Inl (Errorf NotFound ''ToDo with ID='%d' is not found''
                      [D (GetId (UpdateRequest.ToDo req))]), db))"
proof -
  from assms(3) have none: "GetId (UpdateRequest.ToDo req) \<notin> col_ID ` set (table db)"
    by (auto simp: matching_def filter_empty_conv)
  from assms(2) obtain t where t: "ptypes_Timestamp (GetReminder (UpdateRequest.ToDo req)) = Inr t"
    by (cases "GetReminder (UpdateRequest.ToDo req)")
      (auto simp: ptypes_Timestamp_def validateTimestamp_def)
  have same: "snd (run_stmt db (UPDATE a b c (GetId (UpdateRequest.ToDo req)))) = db" for a b c
    using none by (simp add: update_none)
  have cnt: "rowsAffected (fst (run_stmt db (UPDATE a b c (GetId (UpdateRequest.ToDo req))))) = 0"
    for a b c
    using none by (simp add: count_zero)
  show ?thesis
  proof (intro conjI impI)
    show "snd (Update f db req) = db"
      using same cnt
      by (auto simp: Update_def ExecContext_def RowsAffected_def t
          split: option.splits sum.splits prod.splits)
  next
    assume "healthy f"
    then show "Update f db req =
              (Inl (Errorf NotFound ''ToDo with ID='%d' is not found''
                      [D (GetId (UpdateRequest.ToDo req))]), db)"
      using assms(1) same cnt
      by (auto simp: Update_def connect_def ExecContext_def RowsAffected_def t healthy_simps
          split: prod.splits)
  qed
qed

theorem update_missing_not_found_witness:
  "checkAPI ''v1'' = None \<and>
   validateTimestamp (GetReminder (Some todo_absent)) = None \<and>
   matching db_one (GetId (Some todo_absent)) = [] \<and>
   healthy no_faults \<and>
   snd (Update no_faults db_one
          \<lparr>UpdateRequest.Api = ''v1'', UpdateRequest.ToDo = Some todo_absent\<rparr>) = db_one \<and>
   Update no_faults db_one \<lparr>UpdateRequest.Api = ''v1'', UpdateRequest.ToDo = Some todo_absent\<rparr> =
     (Inl (Errorf NotFound ''ToDo with ID='%d' is not found'' [D 7]), db_one)"
proof -
  have valid: "validateTimestamp (GetReminder (Some todo_absent)) = None"
    by (simp add: GetReminder_def todo_absent_def sample_simps)
  have absent: "matching db_one (GetId (Some todo_absent)) = []"
    by (simp add: matching_def db_one_def row_sample_def GetId_def todo_absent_def)
  have seven: "GetId (Some todo_absent) = 7"
    by (simp add: GetId_def todo_absent_def)
  from update_missing_not_found
    [of "\<lparr>UpdateRequest.Api = ''v1'', UpdateRequest.ToDo = Some todo_absent\<rparr>" db_one no_faults]
    valid absent seven sample_simps(1,4)
  show ?thesis by simp
qed

text \<open>
  C7. Delete twice. On a table that satisfies its primary key, for an identifier that is
  stored, with accepted API versions and a storage collaborator that reports no failure:
  the first Delete succeeds and reports one deleted row, and a second Delete of the same
  identifier on the resulting table returns a not-found error.
\<close>

theorem delete_twice:
  assumes "healthy f" and "healthy f'"
    and "checkAPI api = None" and "checkAPI api' = None"
    and "primary_key db" and "matching db i \<noteq> []"
  shows
    "case Delete f db \<lparr>DeleteRequest.Api = api, DeleteRequest.Id = i\<rparr> of
       (Inl e, db') \<Rightarrow> False
     | (Inr resp, db') \<Rightarrow>
         resp = \<lparr>DeleteResponse.Api = apiVersion, DeleteResponse.Deleted = 1\<rparr> \<and>
         Delete f' db' \<lparr>DeleteRequest.Api = api', DeleteRequest.Id = i\<rparr> =
           (Inl (Errorf NotFound ''ToDo with ID='%d' is not found'' [D i]), db')"
proof -
  let ?db' = "db\<lparr>table := filter (\<lambda>x. col_ID x \<noteq> i) (table db)\<rparr>"
  from assms(6) have "i \<in> col_ID ` set (table db)"
    by (auto simp: matching_def filter_empty_conv)
  with assms(5) have one: "length (filter (\<lambda>x. col_ID x = i) (table db)) = 1"
    by (simp add: primary_key_def count_one)
  have first: "Delete f db \<lparr>DeleteRequest.Api = api, DeleteRequest.Id = i\<rparr> =
      (Inr \<lparr>DeleteResponse.Api = apiVersion, DeleteResponse.Deleted = 1\<rparr>, ?db')"
    using assms(1,3) one
    by (simp add: Delete_def connect_def ExecContext_def RowsAffected_def healthy_simps)
  have gone: "filter (\<lambda>x. col_ID x = i) (filter (\<lambda>x. col_ID x \<noteq> i) (table db)) = []"
    by (simp add: filter_empty_conv)
  have again: "Delete f' ?db' \<lparr>DeleteRequest.Api = api', DeleteRequest.Id = i\<rparr> =
      (Inl (Errorf NotFound ''ToDo with ID='%d' is not found'' [D i]), ?db')"
    using assms(2,4) gone
    by (simp add: Delete_def connect_def ExecContext_def RowsAffected_def healthy_simps)
  show ?thesis
    by (simp add: first again)
qed

theorem delete_twice_witness:
  "healthy no_faults \<and> checkAPI ''v1'' = None \<and> checkAPI [] = None \<and> primary_key db_one \<and>
   matching db_one 1 \<noteq> [] \<and>
   (case Delete no_faults db_one \<lparr>DeleteRequest.Api = ''v1'', DeleteRequest.Id = 1\<rparr> of
       (Inl e, db') \<Rightarrow> False
     | (Inr resp, db') \<Rightarrow>
         resp = \<lparr>DeleteResponse.Api = apiVersion, DeleteResponse.Deleted = 1\<rparr> \<and>
         Delete no_faults db' \<lparr>DeleteRequest.Api = [], DeleteRequest.Id = 1\<rparr> =
           (Inl (Errorf NotFound ''ToDo with ID='%d' is not found'' [D 1]), db'))"
proof -
  have stored: "matching db_one 1 \<noteq> []"
    by (simp add: matching_def db_one_def row_sample_def)
  from delete_twice [OF sample_simps(1) sample_simps(1) sample_simps(4) sample_simps(5)
      sample_simps(2) stored] stored sample_simps
  show ?thesis by simp
qed

text \<open>
  C8. ReadAll on an empty table, with an accepted API version and a storage collaborator
  that reports no failure, returns the empty sequence and no error.
\<close>

theorem readall_empty_table:
  assumes "healthy f" and "checkAPI (ReadAllRequest.Api req) = None" and "table db = []"
  shows "ReadAll f db req =
           (Inr \<lparr>ReadAllResponse.Api = apiVersion, ReadAllResponse.ToDos = []\<rparr>, db)"
  using assms
  by (simp add: ReadAll_def connect_def QueryContext_def healthy_simps)

theorem readall_empty_table_witness:
  "healthy no_faults \<and> checkAPI [] = None \<and> table db_empty = [] \<and>
   ReadAll no_faults db_empty \<lparr>ReadAllRequest.Api = []\<rparr> =
     (Inr \<lparr>ReadAllResponse.Api = ''v1'', ReadAllResponse.ToDos = []\<rparr>, db_empty)"
proof -
  have empty: "table db_empty = []"
    by (simp add: db_empty_def)
  from readall_empty_table [of no_faults "\<lparr>ReadAllRequest.Api = []\<rparr>" db_empty]
    empty sample_simps
  show ?thesis by (simp add: apiVersion_def)
qed

text \<open>
  C9. Create with an accepted API version and a to-do item whose reminder cannot be converted
  to a time (a nil timestamp, seconds outside the years 0001 to 9999, or nanoseconds outside
  \<open>[0, 10^9)\<close>): the table is unchanged, whatever the storage collaborator reports, and
  once a connection has been obtained the call fails with the code InvalidArgument.
\<close>

theorem create_invalid_reminder:
  assumes "checkAPI (CreateRequest.Api req) = None"
    and "CreateRequest.ToDo req = Some td"
    and "ptypes_Timestamp (ToDo.Reminder td) = Inl e"
  shows "snd (Create f db req) = db \<and>
         (conn_err f = None \<longrightarrow>
            Create f db req =
              (Inl (Errorf InvalidArgument ''reminder field has invalid format, %+v''
                      [E (TimestampErr e)]), db))"
  using assms
  by (simp add: Create_def connect_def split: option.splits)

theorem create_invalid_reminder_witness:
  "checkAPI ''v1'' = None \<and>
   ptypes_Timestamp (ToDo.Reminder todo_bad) = Inl NanosOutOfRange \<and>
   conn_err no_faults = None \<and>
   snd (Create no_faults db_one
         \<lparr>CreateRequest.Api = ''v1'', CreateRequest.ToDo = Some todo_bad\<rparr>) = db_one \<and>
   Create no_faults db_one \<lparr>CreateRequest.Api = ''v1'', CreateRequest.ToDo = Some todo_bad\<rparr> =
     (Inl (Errorf InvalidArgument ''reminder field has invalid format, %+v''
             [E (TimestampErr NanosOutOfRange)]), db_one)"
proof -
  have bad: "ptypes_Timestamp (ToDo.Reminder todo_bad) = Inl NanosOutOfRange"
    by (simp add: todo_bad_def ts_bad_def ptypes_Timestamp_def validateTimestamp_def
        minValidSeconds_def maxValidSeconds_def)
  have conn: "conn_err no_faults = None"
    by (simp add: no_faults_def)
  from create_invalid_reminder
    [of "\<lparr>CreateRequest.Api = ''v1'', CreateRequest.ToDo = Some todo_bad\<rparr>" todo_bad
      NanosOutOfRange no_faults db_one]
    bad conn sample_simps(4)
  show ?thesis by simp
qed

text \<open>
  C10. A request without a to-do message, with an accepted API version, once a connection has
  been obtained: Create reads \<^verbatim>\<open>req.ToDo.Reminder\<close> through the nil pointer and panics;
  Update reads the reminder with \<^verbatim>\<open>GetReminder\<close>, gets a nil timestamp and fails with the
  code InvalidArgument.
\<close>

theorem create_nil_todo_panics:
  assumes "checkAPI api = None" and "conn_err f = None"
  shows "Create f db \<lparr>CreateRequest.Api = api, CreateRequest.ToDo = None\<rparr> = (Inl Panic, db) \<and>
         Update f db \<lparr>UpdateRequest.Api = api, UpdateRequest.ToDo = None\<rparr> =
           (Inl (Errorf InvalidArgument ''reminder filed has invalid format, %+v''
                   [E (TimestampErr NilTimestamp)]), db)"
  using assms
  by (simp add: Create_def Update_def connect_def GetReminder_def ptypes_Timestamp_def
      validateTimestamp_def)

theorem create_nil_todo_panics_witness:
  "checkAPI ''v1'' = None \<and> conn_err no_faults = None \<and>
   Create no_faults db_one \<lparr>CreateRequest.Api = ''v1'', CreateRequest.ToDo = None\<rparr> =
     (Inl Panic, db_one) \<and>
   Update no_faults db_one \<lparr>UpdateRequest.Api = ''v1'', UpdateRequest.ToDo = None\<rparr> =
     (Inl (Errorf InvalidArgument ''reminder filed has invalid format, %+v''
             [E (TimestampErr NilTimestamp)]), db_one)"
proof -
  have conn: "conn_err no_faults = None"
    by (simp add: no_faults_def)
  from create_nil_todo_panics [OF sample_simps(4) conn, of db_one] conn sample_simps(4)
  show ?thesis by simp
qed

end
